theory Spec2Isabelle
  imports Main "HOL-Library.Word" "HOL-Library.List_Lexorder" "HOL-Library.Char_ord"
    "HOL-Library.AList"
begin

unbundle bit_operations_syntax

section \<open>DNSSEC signing of SkyDNS (server/dnssec.go)\<close>

text \<open>
  A shallow embedding of \<^verbatim>\<open>src/server/dnssec.go\<close>: the RRset grouper \<^verbatim>\<open>rrSets\<close>, the
  signature cache \<^verbatim>\<open>sigCache\<close> with its fingerprint \<^verbatim>\<open>key\<close>, the single-flight
  coordinator \<^verbatim>\<open>single.Do\<close>, the denial index \<^verbatim>\<open>denialList\<close> and the signer
  \<^verbatim>\<open>Server.sign\<close>. Go strings are byte strings (\<open>string\<close>, compared bytewise as Go
  compares them), \<^verbatim>\<open>uint16\<close> and \<^verbatim>\<open>uint32\<close> are words, a run-time panic is the
  \<open>Inl\<close> of a sum.
\<close>

subsection \<open>Errors\<close>

datatype error = IndexOutOfRange

definition and_then :: "error + 'a \<Rightarrow> ('a \<Rightarrow> error + 'b) \<Rightarrow> error + 'b" where
  "and_then r f = (case r of Inl e \<Rightarrow> Inl e | Inr a \<Rightarrow> f a)"

text \<open>An index expression \<^verbatim>\<open>xs[i]\<close> of Go: it panics outside \<^verbatim>\<open>0 <= i < len(xs)\<close>.\<close>

definition index :: "'a list \<Rightarrow> int \<Rightarrow> error + 'a" where
  "index xs i = (if 0 \<le> i \<and> i < int (length xs) then Inr (xs ! nat i) else Inl IndexOutOfRange)"

subsection \<open>Resource records\<close>

text \<open>
  The record types are those of the DNS library the file imports; they are not under
  \<^verbatim>\<open>src/\<close>. A record is kept with its header and the rdata fields that
  \<^verbatim>\<open>dnssec.go\<close> reads or writes. The constructors stand for the dynamic types of the
  \<^verbatim>\<open>dns.RR\<close> interface, on which \<^verbatim>\<open>key\<close> switches.
\<close>

type_synonym byte = "8 word"

record RR_Header =
  Name :: string
  Rrtype :: "16 word"
  Class :: "16 word"
  Ttl :: "32 word"

record RRSIG =
  Hdr :: RR_Header
  TypeCovered :: "16 word"
  Algorithm :: "8 word"
  Labels :: "8 word"
  OrigTtl :: "32 word"
  Expiration :: "32 word"
  Inception :: "32 word"
  KeyTag :: "16 word"
  SignerName :: string
  Signature :: string

datatype RR =
    SOA RR_Header "32 word"
  | SRV RR_Header "16 word" "16 word" "16 word" string
  | A RR_Header "byte list"
  | AAAA RR_Header "byte list"
  | DNSKEY RR_Header
  | NSEC RR_Header string "16 word list"
  | SIG RRSIG
  | OPT RR_Header
  | OtherRR RR_Header

text \<open>
  \<open>SOA h serial\<close>; \<open>SRV h priority weight port target\<close>; \<open>A h address\<close>;
  \<open>AAAA h address\<close>; \<open>NSEC h nextDomain typeBitMap\<close>; \<open>SIG\<close> is an
  \<^verbatim>\<open>*dns.RRSIG\<close>; \<open>OtherRR\<close> is any record type the file does not name.
\<close>

fun Header :: "RR \<Rightarrow> RR_Header" where
  "Header (SOA h serial) = h"
| "Header (SRV h priority weight port target) = h"
| "Header (A h a) = h"
| "Header (AAAA h a) = h"
| "Header (DNSKEY h) = h"
| "Header (NSEC h next types) = h"
| "Header (SIG s) = Hdr s"
| "Header (OPT h) = h"
| "Header (OtherRR h) = h"

definition TypeRRSIG :: "16 word" where "TypeRRSIG = 46"
definition TypeOPT :: "16 word" where "TypeOPT = 41"

definition origTTL :: "32 word" where "origTTL = 60"

subsection \<open>Slices\<close>

text \<open>
  A Go slice is a window on a backing array. \<open>elems\<close> are \<^verbatim>\<open>s[0:len(s)]\<close>;
  \<open>spare\<close> are the cells of the backing array from \<^verbatim>\<open>len(s)\<close> up to
  \<^verbatim>\<open>cap(s)\<close>, \<open>None\<close> for a cell never written. A copy of the slice value shares
  the array and keeps its own length.
\<close>

record 'a slice =
  elems :: "'a list"
  spare :: "'a option list"

text \<open>
  \<^verbatim>\<open>append(s, r)\<close>, for a slice \<open>s\<close> that another slice value \<open>t\<close> of the same
  array and length aliases: the first component is the slice returned, the second is
  what \<open>t\<close> holds afterwards. With spare capacity the element is written into the
  shared array beyond \<open>t\<close>'s length; without, \<^verbatim>\<open>append\<close> moves to a new array
  (whose spare capacity the runtime chooses; none is modelled) and \<open>t\<close> is untouched.
\<close>

definition append_slice :: "'a slice \<Rightarrow> 'a \<Rightarrow> 'a slice \<times> 'a slice" where
  "append_slice s r =
     (case spare s of
        [] \<Rightarrow> (\<lparr>elems = elems s @ [r], spare = []\<rparr>, s)
      | c # cs \<Rightarrow> (\<lparr>elems = elems s @ [r], spare = cs\<rparr>, s\<lparr>spare := Some r # cs\<rparr>))"

subsection \<open>RRset grouper\<close>

record rrset =
  qname :: string
  qclass :: "16 word"
  qtype :: "16 word"

definition rrset_of :: "RR \<Rightarrow> rrset" where
  "rrset_of r = \<lparr>qname = Name (Header r), qclass = Class (Header r), qtype = Rrtype (Header r)\<rparr>"

text \<open>
  The map \<^verbatim>\<open>m\<close> of \<^verbatim>\<open>rrSets\<close> is an association list with one entry per key
  (Go leaves the iteration order of a map open; the list fixes one). In the branch
  where the key is present the source assigns the result of \<^verbatim>\<open>append\<close> to the
  local \<^verbatim>\<open>s\<close> and never to \<^verbatim>\<open>m[key]\<close>: the map's slice keeps its length and
  only sees the write into the shared array. In the other branch
  \<^verbatim>\<open>make([]dns.RR, 1, 3)\<close> followed by \<^verbatim>\<open>s[0] = r\<close> is one element and two spare
  cells.
\<close>

fun rrSets_loop :: "RR list \<Rightarrow> (rrset \<times> RR slice) list \<Rightarrow> (rrset \<times> RR slice) list" where
  "rrSets_loop [] m = m"
| "rrSets_loop (r # rrs) m =
     (case map_of m (rrset_of r) of
        Some s \<Rightarrow>
          (let (s', stored) = append_slice s r
           in rrSets_loop rrs (AList.update (rrset_of r) stored m))
      | None \<Rightarrow>
          rrSets_loop rrs (AList.update (rrset_of r) \<lparr>elems = [r], spare = [None, None]\<rparr> m))"

definition rrSets :: "RR list \<Rightarrow> (rrset \<times> RR slice) list option" where
  "rrSets rrs = (let m = rrSets_loop rrs [] in if length m > 0 then Some m else None)"

text \<open>The record lists a \<^verbatim>\<open>range\<close> over the result visits; none for \<^verbatim>\<open>nil\<close>.\<close>

definition groups :: "(rrset \<times> RR slice) list option \<Rightarrow> RR list list" where
  "groups m = (case m of None \<Rightarrow> [] | Some kvs \<Rightarrow> map (\<lambda>(k, s). elems s) kvs)"

text \<open>The group of a key, as a caller reads it from the result.\<close>

definition group_of :: "(rrset \<times> RR slice) list option \<Rightarrow> rrset \<Rightarrow> RR list option" where
  "group_of m k = (case m of None \<Rightarrow> None | Some kvs \<Rightarrow> map_option elems (map_of kvs k))"

subsection \<open>Signature cache\<close>

type_synonym sigCache = "byte list \<rightharpoonup> RRSIG"

definition newCache :: sigCache where
  "newCache = Map.empty"

definition cache_remove :: "byte list \<Rightarrow> sigCache \<Rightarrow> sigCache" where
  "cache_remove s c = c(s := None)"

definition cache_insert :: "byte list \<Rightarrow> RRSIG \<Rightarrow> sigCache \<Rightarrow> sigCache" where
  "cache_insert s r c = (case c s of None \<Rightarrow> c(s \<mapsto> r) | Some _ \<Rightarrow> c)"

text \<open>\<^verbatim>\<open>search\<close> returns a copy of the stored signature: the value.\<close>

definition cache_search :: "byte list \<Rightarrow> sigCache \<Rightarrow> RRSIG option" where
  "cache_search s c = c s"

subsection \<open>Fingerprint\<close>

definition packUint16 :: "16 word \<Rightarrow> byte list" where
  "packUint16 i = [ucast (drop_bit 8 i), ucast i]"

definition packUint32 :: "32 word \<Rightarrow> byte list" where
  "packUint32 i = [ucast (drop_bit 24 i), ucast (drop_bit 16 i), ucast (drop_bit 8 i), ucast i]"

definition bytes_of :: "string \<Rightarrow> byte list" where
  "bytes_of s = map of_char s"

text \<open>The bytes one record adds to the buffer \<^verbatim>\<open>i\<close> in the type switch of \<^verbatim>\<open>key\<close>.\<close>

fun rdata_bytes :: "RR \<Rightarrow> byte list" where
  "rdata_bytes (SOA h serial) = packUint32 serial"
| "rdata_bytes (SRV h priority weight port target) =
     packUint16 priority @ packUint16 weight @ packUint16 weight @ bytes_of target"
| "rdata_bytes (A h a) = a"
| "rdata_bytes (AAAA h a) = a"
| "rdata_bytes (DNSKEY h) = []"
| "rdata_bytes (NSEC h next types) = []"
| "rdata_bytes (SIG s) = []"
| "rdata_bytes (OPT h) = []"
| "rdata_bytes (OtherRR h) = []"

text \<open>
  \<^verbatim>\<open>h := sha1.New()\<close> is never written to, and \<^verbatim>\<open>h.Sum(i)\<close> appends the digest of
  what was written to \<^verbatim>\<open>i\<close>: the result is \<^verbatim>\<open>i\<close> followed by the SHA-1 digest of the
  empty input, \<^verbatim>\<open>da39a3ee5e6b4b0d3255bfef95601890afd80709\<close>.
\<close>

definition sha1_of_nothing :: "byte list" where
  "sha1_of_nothing =
     packUint32 0xda39a3ee @ packUint32 0x5e6b4b0d @ packUint32 0x3255bfef @
     packUint32 0x95601890 @ packUint32 0xafd80709"

definition new_sha1_Sum :: "byte list \<Rightarrow> byte list" where
  "new_sha1_Sum i = i @ sha1_of_nothing"

definition key :: "RR list \<Rightarrow> error + byte list" where
  "key rrs =
     and_then (index rrs 0) (\<lambda>r0.
       Inr (new_sha1_Sum
         (foldl (\<lambda>i r. i @ rdata_bytes r)
            (bytes_of (Name (Header r0)) @ packUint16 (Rrtype (Header r0))) rrs)))"

subsection \<open>Denial index\<close>

text \<open>
  \<^verbatim>\<open>sort.Search(n, f)\<close> of the Go library: the binary search
  \<^verbatim>\<open>i, j := 0, n; for i < j { h := int(uint(i+j) >> 1); if !f(h) { i = h + 1 } else { j = h } }; return i\<close>.
  The indices are lengths of slices in memory, so \<^verbatim>\<open>i+j\<close> does not wrap.
\<close>

function Search_loop :: "(nat \<Rightarrow> bool) \<Rightarrow> nat \<Rightarrow> nat \<Rightarrow> nat" where
  "Search_loop f i j =
     (if i < j
      then (let h = (i + j) div 2 in if \<not> f h then Search_loop f (h + 1) j else Search_loop f i h)
      else i)"
  by pat_completeness auto
termination
  by (relation "measure (\<lambda>(f, i, j). j - i)") auto

declare Search_loop.simps [simp del]

definition Search :: "nat \<Rightarrow> (nat \<Rightarrow> bool) \<Rightarrow> nat" where
  "Search n f = Search_loop f 0 n"

text \<open>
  \<^verbatim>\<open>reference\<close> is a Go \<^verbatim>\<open>int\<close>: 64 bits, two's complement (\<open>sint\<close> reads it),
  \<^verbatim>\<open>++\<close> and \<^verbatim>\<open>--\<close> wrap.
\<close>

record denialref =
  name :: string
  reference :: "64 word"

type_synonym registry = "denialref list"

text \<open>\<^verbatim>\<open>copy(a[d:], a[s:])\<close> within one array: as many elements as both windows hold.\<close>

definition copy_within :: "'a list \<Rightarrow> nat \<Rightarrow> nat \<Rightarrow> 'a list" where
  "copy_within a d s =
     (let k = min (length a - d) (length a - s)
      in take d a @ take k (drop s a) @ drop (d + k) a)"

definition find_name :: "string \<Rightarrow> registry \<Rightarrow> nat" where
  "find_name x xs = Search (length xs) (\<lambda>i. name (xs ! i) \<ge> x)"

text \<open>The bodies of \<^verbatim>\<open>insert\<close>, \<^verbatim>\<open>remove\<close> and \<^verbatim>\<open>search\<close> on the slice \<^verbatim>\<open>d.list[l-1]\<close>.\<close>

definition reg_insert :: "string \<Rightarrow> registry \<Rightarrow> registry" where
  "reg_insert x xs =
     (let i = find_name x xs in
      if i < length xs \<and> name (xs ! i) = x
      then xs[i := (xs ! i)\<lparr>reference := reference (xs ! i) + 1\<rparr>]
      else
        (let ys = xs @ [\<lparr>name = '''', reference = 0\<rparr>];
             zs = copy_within ys (i + 1) i
         in zs[i := (zs ! i)\<lparr>name := x, reference := 1\<rparr>]))"

definition reg_remove :: "string \<Rightarrow> registry \<Rightarrow> registry" where
  "reg_remove x xs =
     (let i = find_name x xs in
      if i < length xs \<and> name (xs ! i) = x
      then
        (let ys = xs[i := (xs ! i)\<lparr>reference := reference (xs ! i) - 1\<rparr>] in
         if reference (ys ! i) = 0
         then
           (let zs = copy_within ys i (i + 1);
                ws = zs[length zs - 1 := \<lparr>name = '''', reference = 0\<rparr>]
            in take (length ws - 1) ws)
         else ys)
      else xs)"

definition reg_search :: "string \<Rightarrow> registry \<Rightarrow> error + (string \<times> string)" where
  "reg_search x xs =
     (let i = int (find_name x xs) in
      if i = 1
      then and_then (index xs i) (\<lambda>b. Inr ('''', name b))
      else and_then (index xs (i - 1)) (\<lambda>a. and_then (index xs i) (\<lambda>b. Inr (name a, name b))))"

text \<open>\<^verbatim>\<open>denialList.list\<close> is an array of four slices; \<^verbatim>\<open>d.list[l-1]\<close> panics outside it.\<close>

type_synonym denialList = "registry list"

definition newDenialList :: denialList where
  "newDenialList = [[], [], [], []]"

definition level :: "int \<Rightarrow> error + nat" where
  "level l = (if 0 \<le> l - 1 \<and> l - 1 < 4 then Inr (nat (l - 1)) else Inl IndexOutOfRange)"

definition denial_insert :: "string \<Rightarrow> int \<Rightarrow> denialList \<Rightarrow> error + denialList" where
  "denial_insert x l d = and_then (level l) (\<lambda>k. Inr (d[k := reg_insert x (d ! k)]))"

definition denial_remove :: "string \<Rightarrow> int \<Rightarrow> denialList \<Rightarrow> error + denialList" where
  "denial_remove x l d = and_then (level l) (\<lambda>k. Inr (d[k := reg_remove x (d ! k)]))"

definition denial_search :: "string \<Rightarrow> int \<Rightarrow> denialList \<Rightarrow> error + (string \<times> string)" where
  "denial_search x l d = and_then (level l) (\<lambda>k. reg_search x (d ! k))"

text \<open>
  \<^verbatim>\<open>msg.Service\<close> is declared in the package \<^verbatim>\<open>msg\<close>, which is not under
  \<^verbatim>\<open>src/\<close>; the four string fields the file reads are kept.
\<close>

record Service =
  Region :: string
  Version :: string
  SName :: string
  Environment :: string

definition addServiceNSEC :: "Service \<Rightarrow> denialList \<Rightarrow> error + denialList" where
  "addServiceNSEC s d =
     and_then (denial_insert (Region s @ ''.'' @ Version s @ ''.'' @ SName s @ ''.'' @ Environment s) 4 d) (\<lambda>d.
     and_then (denial_insert (Version s @ ''.'' @ SName s @ ''.'' @ Environment s) 3 d) (\<lambda>d.
     and_then (denial_insert (SName s @ ''.'' @ Environment s) 2 d) (\<lambda>d.
     denial_insert (Environment s) 1 d)))"

definition removeServiceNSEC :: "Service \<Rightarrow> denialList \<Rightarrow> error + denialList" where
  "removeServiceNSEC s d =
     and_then (denial_insert (Region s @ ''.'' @ Version s @ ''.'' @ SName s @ ''.'' @ Environment s) 4 d) (\<lambda>d.
     and_then (denial_insert (Version s @ ''.'' @ SName s @ ''.'' @ Environment s) 3 d) (\<lambda>d.
     and_then (denial_insert (SName s @ ''.'' @ Environment s) 2 d) (\<lambda>d.
     denial_insert (Environment s) 1 d)))"

text \<open>The reference count of a name at a depth, \<open>None\<close> when the registry does not hold it.\<close>

definition refcount :: "denialList \<Rightarrow> nat \<Rightarrow> string \<Rightarrow> int option" where
  "refcount d k x = map_option (\<lambda>e. sint (reference e)) (find (\<lambda>e. name e = x) (d ! k))"

subsection \<open>Single flight, one caller\<close>

text \<open>
  \<^verbatim>\<open>single.Do\<close> when no other goroutine is inside it: the key is not in \<^verbatim>\<open>g.m\<close>, the
  caller registers a call with \<^verbatim>\<open>dups = 0\<close>, runs \<^verbatim>\<open>fn\<close>, removes the key and returns
  \<^verbatim>\<open>c.val, c.err, c.dups > 0\<close>. A Go \<^verbatim>\<open>error\<close> is \<open>None\<close> for \<^verbatim>\<open>nil\<close>.
\<close>

definition Do_alone :: "(unit \<Rightarrow> RRSIG \<times> string option) \<Rightarrow> RRSIG \<times> string option \<times> bool" where
  "Do_alone fn = (let (val, err) = fn (); dups = (0 :: int) in (val, err, dups > 0))"

subsection \<open>Signer\<close>

record Server =
  dnskey_Algorithm :: "8 word"
  dnskey_Name :: string
  keyTag :: "16 word"

text \<open>The sections and the flag of \<^verbatim>\<open>dns.Msg\<close> that \<^verbatim>\<open>sign\<close> touches.\<close>

record Msg =
  Answer :: "RR list"
  Ns :: "RR list"
  Extra :: "RR list"
  Truncated :: bool

text \<open>
  The methods of the DNS library that \<^verbatim>\<open>sign\<close> calls and that are not under
  \<^verbatim>\<open>src/\<close> are parameters: \<^verbatim>\<open>RRSIG.ValidityPeriod(t)\<close> (the time in Unix seconds),
  \<^verbatim>\<open>RRSIG.Sign(privkey, rrset)\<close> with the server's private key (the signature record
  as \<^verbatim>\<open>Sign\<close> leaves it, and the error) and \<^verbatim>\<open>Msg.Len()\<close>.
\<close>

record dnslib =
  ValidityPeriod :: "RRSIG \<Rightarrow> int \<Rightarrow> bool"
  Sign :: "RRSIG \<Rightarrow> RR list \<Rightarrow> RRSIG \<times> string option"
  Len :: "Msg \<Rightarrow> int"

definition newRRSIG :: "Server \<Rightarrow> 32 word \<Rightarrow> 32 word \<Rightarrow> RRSIG" where
  "newRRSIG srv incep expir =
     \<lparr>Hdr = \<lparr>Name = [], Rrtype = TypeRRSIG, Class = 0, Ttl = origTTL\<rparr>,
      TypeCovered = 0, Algorithm = dnskey_Algorithm srv, Labels = 0, OrigTtl = origTTL,
      Expiration = expir, Inception = incep, KeyTag = keyTag srv,
      SignerName = dnskey_Name srv, Signature = []\<rparr>"

text \<open>
  The body of the loops of \<^verbatim>\<open>sign\<close> for one RRset \<open>r\<close>, on the cache and the
  section being extended. \<open>now\<close> is \<^verbatim>\<open>time.Now().UTC()\<close> in Unix seconds, so
  \<^verbatim>\<open>now.Add(-24 * time.Hour)\<close> is \<open>now - 24 * 3600\<close>. \<open>sign_fresh\<close> is the part
  from \<^verbatim>\<open>inflight.Do\<close> on.
\<close>

definition sign_fresh ::
  "dnslib \<Rightarrow> Server \<Rightarrow> 32 word \<Rightarrow> 32 word \<Rightarrow> RR list \<Rightarrow> byte list \<Rightarrow> sigCache \<times> RR list
     \<Rightarrow> sigCache \<times> RR list" where
  "sign_fresh lib srv incep expir r k st =
     (case st of (c, sec) \<Rightarrow>
        (let (sig, err, shared) = Do_alone (\<lambda>_. Sign lib (newRRSIG srv incep expir) r) in
         case err of
           Some e \<Rightarrow> (c, sec)
         | None \<Rightarrow> ((if \<not> shared then cache_insert k sig c else c), sec @ [SIG sig])))"

definition sign_rrset ::
  "dnslib \<Rightarrow> Server \<Rightarrow> int \<Rightarrow> 32 word \<Rightarrow> 32 word \<Rightarrow> RR list \<Rightarrow> sigCache \<times> RR list
     \<Rightarrow> error + sigCache \<times> RR list" where
  "sign_rrset lib srv now incep expir r st =
     (case st of (c, sec) \<Rightarrow>
        and_then (key r) (\<lambda>k.
          case cache_search k c of
            Some s \<Rightarrow>
              if ValidityPeriod lib s (now - 24 * 3600)
              then Inr (c, sec @ [SIG s])
              else Inr (sign_fresh lib srv incep expir r k (cache_remove k c, sec))
          | None \<Rightarrow> Inr (sign_fresh lib srv incep expir r k (c, sec))))"

fun sign_rrsets ::
  "dnslib \<Rightarrow> Server \<Rightarrow> int \<Rightarrow> 32 word \<Rightarrow> 32 word \<Rightarrow> RR list list \<Rightarrow> sigCache \<times> RR list
     \<Rightarrow> error + sigCache \<times> RR list" where
  "sign_rrsets lib srv now incep expir [] st = Inr st"
| "sign_rrsets lib srv now incep expir (r # rs) st =
     and_then (sign_rrset lib srv now incep expir r st) (sign_rrsets lib srv now incep expir rs)"

text \<open>
  The extension record: \<^verbatim>\<open>SetDo\<close> sets the DO bit (bit 15) of the header's TTL,
  \<^verbatim>\<open>SetUDPSize\<close> stores the size in the header's class.
\<close>

definition opt_record :: RR where
  "opt_record = OPT \<lparr>Name = ''.'', Rrtype = TypeOPT, Class = 4096, Ttl = 0x8000\<rparr>"

definition sign :: "dnslib \<Rightarrow> Server \<Rightarrow> int \<Rightarrow> sigCache \<Rightarrow> Msg \<Rightarrow> 16 word \<Rightarrow> error + sigCache \<times> Msg" where
  "sign lib srv now c m bufsize =
     (let incep = (word_of_int (now - 2 * 3600) :: 32 word);
          expir = (word_of_int (now + 7 * 24 * 3600) :: 32 word)
      in
      and_then (sign_rrsets lib srv now incep expir (groups (rrSets (Answer m))) (c, Answer m))
        (\<lambda>(c1, answer).
      let m1 = m\<lparr>Answer := answer\<rparr> in
      and_then (sign_rrsets lib srv now incep expir (groups (rrSets (Ns m1))) (c1, Ns m1))
        (\<lambda>(c2, ns).
      let m2 = m1\<lparr>Ns := ns\<rparr>;
          m3 = (if bufsize \<ge> 512 \<or> bufsize \<le> 4096
                then m2\<lparr>Truncated := (Len lib m2 > uint bufsize)\<rparr>
                else m2)
      in Inr (c2, m3\<lparr>Extra := Extra m3 @ [opt_record]\<rparr>))))"

text \<open>
  Modelled from the spec: \<^verbatim>\<open>RRSIG.ValidityPeriod\<close> of the DNS library, which is not
  under \<^verbatim>\<open>src/\<close>. A signature record carries an inception and an expiration time; it
  is valid at a time between the two.
\<close>

definition valid_at :: "RRSIG \<Rightarrow> int \<Rightarrow> bool" where
  "valid_at s t = (uint (Inception s) \<le> t \<and> t \<le> uint (Expiration s))"

section \<open>Properties\<close>

lemma and_then_Inr: "and_then (Inr a) f = f a"
  by (simp add: and_then_def)

lemma and_then_Inl: "and_then (Inl e) f = Inl e"
  by (simp add: and_then_def)

subsection \<open>RRset grouper\<close>

lemma rrSets_nil: "rrSets [] = None"
  by (simp add: rrSets_def)

lemma set_update_subset: "set (AList.update k v al) \<subseteq> insert (k, v) (set al)"
  by (induction al) auto

text \<open>No slice stored in the map ever grows: every group holds one record.\<close>

lemma elems_rrSets_loop:
  "\<forall>(k, s) \<in> set m. length (elems s) = 1 \<Longrightarrow>
   \<forall>(k, s) \<in> set (rrSets_loop rrs m). length (elems s) = 1"
proof (induction rrs arbitrary: m)
  case Nil
  then show ?case by simp
next
  case (Cons r rrs)
  show ?case
  proof (cases "map_of m (rrset_of r)")
    case None
    have "\<forall>(k, s) \<in> set (AList.update (rrset_of r) \<lparr>elems = [r], spare = [None, None]\<rparr> m).
            length (elems s) = 1"
      using Cons.prems set_update_subset [of "rrset_of r" _ m] by fastforce
    from Cons.IH [OF this] None show ?thesis by simp
  next
    case (Some s)
    then have "(rrset_of r, s) \<in> set m" by (rule map_of_SomeD)
    with Cons.prems have l: "length (elems s) = 1" by auto
    have "length (elems (snd (append_slice s r))) = 1"
      using l by (simp add: append_slice_def split: list.splits)
    then have "\<forall>(k, t) \<in> set (AList.update (rrset_of r) (snd (append_slice s r)) m).
            length (elems t) = 1"
      using Cons.prems set_update_subset [of "rrset_of r" "snd (append_slice s r)" m] by fastforce
    from Cons.IH [OF this] Some show ?thesis by (simp add: case_prod_unfold)
  qed
qed

lemma rrSets_groups_single: "g \<in> set (groups (rrSets rrs)) \<Longrightarrow> length g = 1"
  using elems_rrSets_loop [of "[]" rrs]
  by (auto simp: groups_def rrSets_def Let_def split: if_splits)

text \<open>
  C1. The grouper is to put all records of one (name, class, type) key into the list of
  that key. On two address records of one key the code returns one group that holds the
  first record only: the second is in no group (it sits in the spare cell of the backing
  array, beyond the length of the stored slice).
\<close>

theorem rrSets_drops_records:
  "group_of
     (rrSets
        [A \<lparr>Name = ''web.skydns.local.'', Rrtype = 1, Class = 1, Ttl = 60\<rparr> [10, 0, 0, 1],
         A \<lparr>Name = ''web.skydns.local.'', Rrtype = 1, Class = 1, Ttl = 60\<rparr> [10, 0, 0, 2]])
     \<lparr>qname = ''web.skydns.local.'', qclass = 1, qtype = 1\<rparr>
   = Some [A \<lparr>Name = ''web.skydns.local.'', Rrtype = 1, Class = 1, Ttl = 60\<rparr> [10, 0, 0, 1]]
   \<and> groups
     (rrSets
        [A \<lparr>Name = ''web.skydns.local.'', Rrtype = 1, Class = 1, Ttl = 60\<rparr> [10, 0, 0, 1],
         A \<lparr>Name = ''web.skydns.local.'', Rrtype = 1, Class = 1, Ttl = 60\<rparr> [10, 0, 0, 2]])
   = [[A \<lparr>Name = ''web.skydns.local.'', Rrtype = 1, Class = 1, Ttl = 60\<rparr> [10, 0, 0, 1]]]"
  by (simp add: group_of_def groups_def rrSets_def rrset_of_def append_slice_def)

subsection \<open>Denial index: search\<close>

text \<open>
  C2. \<^verbatim>\<open>search\<close> is to return the names before and after the insertion point. With the
  registry of depth 1 holding \<open>a\<close> and \<open>c\<close>, the insertion point of \<open>b\<close> is index 1,
  which the code answers with an empty predecessor instead of \<open>a\<close>; a name below the
  first entry has insertion point 0, where the code reads index \<open>-1\<close> and panics.
\<close>

theorem search_between_loses_predecessor:
  "denial_search ''b'' 1
     [[\<lparr>name = ''a'', reference = 1\<rparr>, \<lparr>name = ''c'', reference = 1\<rparr>], [], [], []]
   = Inr ('''', ''c'')
   \<and> denial_search ''B'' 1
     [[\<lparr>name = ''a'', reference = 1\<rparr>, \<lparr>name = ''c'', reference = 1\<rparr>], [], [], []]
   = Inl IndexOutOfRange"
  by (simp add: denial_search_def level_def reg_search_def find_name_def Search_def Search_loop.simps
      and_then_def index_def)

text \<open>
  C10. \<^verbatim>\<open>search\<close> is to stay within the registry. It panics on the empty registry
  (index \<open>-1\<close>), on a name above every stored name (index \<^verbatim>\<open>len\<close>), also when the
  insertion point is 1 in a registry of one name.
\<close>

theorem search_panics:
  "denial_search ''web.prod'' 2 newDenialList = Inl IndexOutOfRange
   \<and> denial_search ''d'' 1
     [[\<lparr>name = ''a'', reference = 1\<rparr>, \<lparr>name = ''c'', reference = 1\<rparr>], [], [], []]
   = Inl IndexOutOfRange
   \<and> denial_search ''c'' 1 [[\<lparr>name = ''a'', reference = 1\<rparr>], [], [], []]
   = Inl IndexOutOfRange"
  by (simp add: denial_search_def newDenialList_def level_def reg_search_def find_name_def
      Search_def Search_loop.simps and_then_def index_def)

subsection \<open>Denial index: registration\<close>

lemma register_once:
  "addServiceNSEC \<lparr>Region = ''east'', Version = ''1-0-0'', SName = ''web'', Environment = ''prod''\<rparr>
     newDenialList
   = Inr [[\<lparr>name = ''prod'', reference = 1\<rparr>],
          [\<lparr>name = ''web.prod'', reference = 1\<rparr>],
          [\<lparr>name = ''1-0-0.web.prod'', reference = 1\<rparr>],
          [\<lparr>name = ''east.1-0-0.web.prod'', reference = 1\<rparr>]]"
  by (simp add: addServiceNSEC_def denial_insert_def newDenialList_def level_def and_then_def
      reg_insert_def find_name_def Search_def Search_loop.simps copy_within_def)

lemma register_twice:
  "addServiceNSEC \<lparr>Region = ''east'', Version = ''1-0-0'', SName = ''web'', Environment = ''prod''\<rparr>
     [[\<lparr>name = ''prod'', reference = 1\<rparr>],
      [\<lparr>name = ''web.prod'', reference = 1\<rparr>],
      [\<lparr>name = ''1-0-0.web.prod'', reference = 1\<rparr>],
      [\<lparr>name = ''east.1-0-0.web.prod'', reference = 1\<rparr>]]
   = Inr [[\<lparr>name = ''prod'', reference = 2\<rparr>],
          [\<lparr>name = ''web.prod'', reference = 2\<rparr>],
          [\<lparr>name = ''1-0-0.web.prod'', reference = 2\<rparr>],
          [\<lparr>name = ''east.1-0-0.web.prod'', reference = 2\<rparr>]]"
  by (simp add: addServiceNSEC_def denial_insert_def level_def and_then_def
      reg_insert_def find_name_def Search_def Search_loop.simps copy_within_def)

lemma deregister_after_two:
  "removeServiceNSEC \<lparr>Region = ''east'', Version = ''1-0-0'', SName = ''web'', Environment = ''prod''\<rparr>
     [[\<lparr>name = ''prod'', reference = 2\<rparr>],
      [\<lparr>name = ''web.prod'', reference = 2\<rparr>],
      [\<lparr>name = ''1-0-0.web.prod'', reference = 2\<rparr>],
      [\<lparr>name = ''east.1-0-0.web.prod'', reference = 2\<rparr>]]
   = Inr [[\<lparr>name = ''prod'', reference = 3\<rparr>],
          [\<lparr>name = ''web.prod'', reference = 3\<rparr>],
          [\<lparr>name = ''1-0-0.web.prod'', reference = 3\<rparr>],
          [\<lparr>name = ''east.1-0-0.web.prod'', reference = 3\<rparr>]]"
  by (simp add: removeServiceNSEC_def denial_insert_def level_def and_then_def
      reg_insert_def find_name_def Search_def Search_loop.simps copy_within_def)

text \<open>\<^verbatim>\<open>removeServiceNSEC\<close> calls \<^verbatim>\<open>denial.insert\<close>, as \<^verbatim>\<open>addServiceNSEC\<close> does.\<close>

lemma removeServiceNSEC_is_add: "removeServiceNSEC s d = addServiceNSEC s d"
  by (simp add: removeServiceNSEC_def addServiceNSEC_def)

text \<open>
  C3. Deregistering a service is to decrement the count of its four names. After two
  registrations of one service the counts are 2; the deregistration that follows leaves
  them at 3, where the claim has 1.
\<close>

theorem deregister_increments:
  "and_then (addServiceNSEC \<lparr>Region = ''east'', Version = ''1-0-0'', SName = ''web'', Environment = ''prod''\<rparr> newDenialList) (\<lambda>d1.
   and_then (addServiceNSEC \<lparr>Region = ''east'', Version = ''1-0-0'', SName = ''web'', Environment = ''prod''\<rparr> d1) (\<lambda>d2.
   and_then (removeServiceNSEC \<lparr>Region = ''east'', Version = ''1-0-0'', SName = ''web'', Environment = ''prod''\<rparr> d2) (\<lambda>d3.
   Inr (refcount d2 1 ''web.prod'', refcount d3 1 ''web.prod'', refcount d3 0 ''prod''))))
   = Inr (Some 2, Some 3, Some 3)"
  by (simp only: register_once register_twice deregister_after_two and_then_Inr)
     (simp add: refcount_def)

subsection \<open>Signature cache\<close>

text \<open>
  C9. \<^verbatim>\<open>insert\<close> on a fingerprint the cache already maps leaves the cache as it is,
  and a lookup still returns the signature stored first.
\<close>

theorem cache_insert_keeps_entry:
  "cache_search k c = Some s \<Longrightarrow>
     cache_insert k r c = c \<and> cache_search k (cache_insert k r c) = Some s"
  by (simp add: cache_search_def cache_insert_def)

theorem cache_insert_keeps_entry_witness:
  "cache_search [1, 2] (cache_insert [1, 2] (newRRSIG \<lparr>dnskey_Algorithm = 5, dnskey_Name = ''skydns.local.'', keyTag = 7\<rparr> 10 20) newCache)
     = Some (newRRSIG \<lparr>dnskey_Algorithm = 5, dnskey_Name = ''skydns.local.'', keyTag = 7\<rparr> 10 20)
   \<and> cache_insert [1, 2] (newRRSIG \<lparr>dnskey_Algorithm = 5, dnskey_Name = ''skydns.local.'', keyTag = 7\<rparr> 30 40)
       (cache_insert [1, 2] (newRRSIG \<lparr>dnskey_Algorithm = 5, dnskey_Name = ''skydns.local.'', keyTag = 7\<rparr> 10 20) newCache)
     = cache_insert [1, 2] (newRRSIG \<lparr>dnskey_Algorithm = 5, dnskey_Name = ''skydns.local.'', keyTag = 7\<rparr> 10 20) newCache
   \<and> cache_search [1, 2] (cache_insert [1, 2] (newRRSIG \<lparr>dnskey_Algorithm = 5, dnskey_Name = ''skydns.local.'', keyTag = 7\<rparr> 30 40)
       (cache_insert [1, 2] (newRRSIG \<lparr>dnskey_Algorithm = 5, dnskey_Name = ''skydns.local.'', keyTag = 7\<rparr> 10 20) newCache))
     = Some (newRRSIG \<lparr>dnskey_Algorithm = 5, dnskey_Name = ''skydns.local.'', keyTag = 7\<rparr> 10 20)"
proof -
  have h: "cache_search [1, 2] (cache_insert [1, 2] (newRRSIG \<lparr>dnskey_Algorithm = 5, dnskey_Name = ''skydns.local.'', keyTag = 7\<rparr> 10 20) newCache)
     = Some (newRRSIG \<lparr>dnskey_Algorithm = 5, dnskey_Name = ''skydns.local.'', keyTag = 7\<rparr> 10 20)"
    by (simp add: cache_search_def cache_insert_def newCache_def)
  from cache_insert_keeps_entry [OF h] h show ?thesis by simp
qed

subsection \<open>Fingerprint\<close>

text \<open>The TTL, the class and the port of a service record never reach the fingerprint.\<close>

lemma rdata_bytes_SRV_port:
  "rdata_bytes (SRV h priority weight port target) = rdata_bytes (SRV h' priority weight port' target)"
  by simp

text \<open>
  C5. Two RRsets that differ in relevant rdata are to have different fingerprints, the
  port of a service record included. The code serialises the weight twice and the port
  never: service records on ports 80 and 443 have one fingerprint.
\<close>

theorem key_ignores_port:
  "key [SRV \<lparr>Name = ''web.skydns.local.'', Rrtype = 33, Class = 1, Ttl = 60\<rparr> 10 20 80 ''host1.''] =
   key [SRV \<lparr>Name = ''web.skydns.local.'', Rrtype = 33, Class = 1, Ttl = 60\<rparr> 10 20 443 ''host1.'']"
  by (simp add: key_def and_then_def index_def)

subsection \<open>Signer\<close>

lemma key_web_A:
  "key [A \<lparr>Name = ''web.skydns.local.'', Rrtype = 1, Class = 1, Ttl = 60\<rparr> [10, 0, 0, 1]]
   = Inr ([119, 101, 98, 46, 115, 107, 121, 100, 110, 115, 46, 108, 111, 99, 97, 108, 46,
           0, 1, 10, 0, 0, 1] @ sha1_of_nothing)"
  by (simp add: key_def and_then_def index_def bytes_of_def packUint16_def new_sha1_Sum_def)

text \<open>The gate on a cached signature: its validity at \<open>now\<close> minus 24 hours.\<close>

lemma sign_rrset_cached:
  "key r = Inr k \<Longrightarrow> cache_search k c = Some s \<Longrightarrow>
   sign_rrset lib srv now incep expir r (c, sec) =
     (if ValidityPeriod lib s (now - 86400) then Inr (c, sec @ [SIG s])
      else Inr (sign_fresh lib srv incep expir r k (cache_remove k c, sec)))"
  by (simp add: sign_rrset_def and_then_def)

text \<open>
  C4. A cached signature is to be appended only with 24 hours of validity left. At
  \<open>now = 1700000000\<close> the cache holds, for the RRset of the answer, a signature with
  inception \<open>now\<close> minus 48 hours and expiration \<open>now\<close> minus 1 hour: it expired an hour
  ago. \<^verbatim>\<open>sign\<close> asks whether it was valid 24 hours ago, appends it to the answer and leaves
  it in the cache; nothing is signed.
\<close>

theorem sign_serves_expired_signature:
  "and_then (key [A \<lparr>Name = ''web.skydns.local.'', Rrtype = 1, Class = 1, Ttl = 60\<rparr> [10, 0, 0, 1]]) (\<lambda>k.
   and_then
     (sign \<lparr>ValidityPeriod = valid_at, Sign = (\<lambda>sig rrs. (sig\<lparr>Signature := ''fresh''\<rparr>, None)), Len = (\<lambda>m. 600)\<rparr>
        \<lparr>dnskey_Algorithm = 5, dnskey_Name = ''skydns.local.'', keyTag = 12345\<rparr>
        1700000000
        (cache_insert k
           ((newRRSIG \<lparr>dnskey_Algorithm = 5, dnskey_Name = ''skydns.local.'', keyTag = 12345\<rparr>
               1699827200 1699996400)\<lparr>Signature := ''old''\<rparr>)
           newCache)
        \<lparr>Answer = [A \<lparr>Name = ''web.skydns.local.'', Rrtype = 1, Class = 1, Ttl = 60\<rparr> [10, 0, 0, 1]],
         Ns = [], Extra = [], Truncated = False\<rparr>
        4096)
     (\<lambda>(c, m). Inr (Answer m, cache_search k c)))
   = Inr ([A \<lparr>Name = ''web.skydns.local.'', Rrtype = 1, Class = 1, Ttl = 60\<rparr> [10, 0, 0, 1],
           SIG ((newRRSIG \<lparr>dnskey_Algorithm = 5, dnskey_Name = ''skydns.local.'', keyTag = 12345\<rparr>
               1699827200 1699996400)\<lparr>Signature := ''old''\<rparr>)],
          Some ((newRRSIG \<lparr>dnskey_Algorithm = 5, dnskey_Name = ''skydns.local.'', keyTag = 12345\<rparr>
               1699827200 1699996400)\<lparr>Signature := ''old''\<rparr>))"
  apply (simp only: key_web_A and_then_Inr)
  apply (simp add: sign_def rrSets_def rrset_of_def groups_def sign_rrset_def key_web_A and_then_Inr
      cache_search_def cache_insert_def newCache_def valid_at_def newRRSIG_def)
  done

text \<open>The guard on the buffer size holds for every \<^verbatim>\<open>uint16\<close>.\<close>

lemma bufsize_guard: "(bufsize :: 16 word) \<ge> 512 \<or> bufsize \<le> 4096"
  by (simp add: word_le_nat_alt) linarith

lemma sign_truncated:
  "sign lib srv now c m bufsize = Inr (c', m') \<Longrightarrow>
   Truncated m' = (Len lib (m'\<lparr>Extra := Extra m, Truncated := Truncated m\<rparr>) > uint bufsize)"
  using bufsize_guard [of bufsize]
  by (auto simp add: sign_def and_then_def Let_def split: sum.splits prod.splits)

text \<open>
  C6. The truncation flag is to be set from the comparison only for a buffer size in
  [512, 4096]. With a message length of 600 the code sets the flag for the buffer size
  100, and clears a flag that was set for the buffer size 65535.
\<close>

theorem sign_truncation_any_bufsize:
  "and_then
     (sign \<lparr>ValidityPeriod = valid_at, Sign = (\<lambda>sig rrs. (sig\<lparr>Signature := ''fresh''\<rparr>, None)), Len = (\<lambda>m. 600)\<rparr>
        \<lparr>dnskey_Algorithm = 5, dnskey_Name = ''skydns.local.'', keyTag = 12345\<rparr>
        1700000000 newCache \<lparr>Answer = [], Ns = [], Extra = [], Truncated = False\<rparr> 100)
     (\<lambda>(c, m). Inr (Truncated m)) = Inr True
   \<and> and_then
     (sign \<lparr>ValidityPeriod = valid_at, Sign = (\<lambda>sig rrs. (sig\<lparr>Signature := ''fresh''\<rparr>, None)), Len = (\<lambda>m. 600)\<rparr>
        \<lparr>dnskey_Algorithm = 5, dnskey_Name = ''skydns.local.'', keyTag = 12345\<rparr>
        1700000000 newCache \<lparr>Answer = [], Ns = [], Extra = [], Truncated = True\<rparr> 65535)
     (\<lambda>(c, m). Inr (Truncated m)) = Inr False"
  by (simp add: sign_def rrSets_def groups_def and_then_Inr)

end
